theory Spec2Isabelle
  imports Main "HOL-Library.Sublist"
begin

section \<open>JavaScript strings\<close>

text \<open>
  A JavaScript string is modelled as a \<open>string\<close>: a list of 8-bit characters, read as
  the code units below 256 (ASCII and Latin-1). The helpers below are the parts of
  \<open>String.prototype\<close> that the news reader calls.
\<close>

definition is_line_terminator :: "char \<Rightarrow> bool" where
  \<comment> \<open>The line terminators of the regular-expression grammar: LF and CR.\<close>
  "is_line_terminator c = (c = CHR 0x0A \<or> c = CHR 0x0D)"

definition is_white_space :: "char \<Rightarrow> bool" where
  \<comment> \<open>What \<open>trim\<close> strips: TAB, LF, VT, FF, CR, space and the no-break space.\<close>
  "is_white_space c =
     (c = CHR 0x09 \<or> c = CHR 0x0A \<or> c = CHR 0x0B \<or> c = CHR 0x0C \<or> c = CHR 0x0D
      \<or> c = CHR 0x20 \<or> c = CHR 0xA0)"

definition trim :: "string \<Rightarrow> string" where
  "trim s = rev (dropWhile is_white_space (rev (dropWhile is_white_space s)))"

definition toLowerCase_char :: "char \<Rightarrow> char" where
  "toLowerCase_char c =
     (let n = (of_char c :: nat)
      in if (65 \<le> n \<and> n \<le> 90) \<or> (192 \<le> n \<and> n \<le> 222 \<and> n \<noteq> 215)
         then char_of (n + 32) else c)"

definition toLowerCase :: "string \<Rightarrow> string" where
  "toLowerCase s = map toLowerCase_char s"

definition str_includes :: "string \<Rightarrow> string \<Rightarrow> bool" where
  \<comment> \<open>\<open>s.includes(t)\<close>: \<open>t\<close> occurs in \<open>s\<close> as a contiguous run.\<close>
  "str_includes s t = sublist t s"

section \<open>The UI module: search history and the article modal\<close>

record article =
  url :: string
  title :: string
  description :: string
  sourceName :: string
  publishedAt :: string
  urlToImage :: "string option"

text \<open>
  The fields of the \<open>UI\<close> object that \<open>addToSearchHistory\<close> and \<open>closeArticleModal\<close>
  read or write. \<open>storedHistory\<close> is the \<open>newsHub_searchHistory\<close> entry of local
  storage, \<open>modalActive\<close> the \<open>active\<close> class of the modal overlay,
  \<open>bodyOverflow\<close> the \<open>overflow\<close> style of the document body and
  \<open>articleFrameSrc\<close> the \<open>src\<close> of the embedded frame. The page is assumed to
  contain the elements the module looks up by id.
\<close>

record ui_state =
  currentArticle :: "article option"
  searchHistory :: "string list"
  storedHistory :: "string list option"
  modalActive :: bool
  bodyOverflow :: string
  articleFrameSrc :: string

definition maxSearchHistory :: nat where
  "maxSearchHistory = 5"

definition saveSearchHistory :: "ui_state \<Rightarrow> ui_state" where
  "saveSearchHistory s = s\<lparr>storedHistory := Some (searchHistory s)\<rparr>"

definition addToSearchHistory :: "string \<Rightarrow> ui_state \<Rightarrow> ui_state" where
  "addToSearchHistory term s =
     (if term = [] \<or> length (trim term) = 0 then s
      else
        let trimmedTerm = trim term;
            removed = filter (\<lambda>t. toLowerCase t \<noteq> toLowerCase trimmedTerm) (searchHistory s);
            added = trimmedTerm # removed;
            kept = (if length added > maxSearchHistory then take maxSearchHistory added
                    else added)
        in saveSearchHistory (s\<lparr>searchHistory := kept\<rparr>))"

fun add_terms :: "string list \<Rightarrow> ui_state \<Rightarrow> ui_state" where
  \<comment> \<open>A sequence of calls, the first term of the list added first.\<close>
  "add_terms [] s = s"
| "add_terms (t # ts) s = add_terms ts (addToSearchHistory t s)"

definition non_blank :: "string \<Rightarrow> bool" where
  "non_blank term = (trim term \<noteq> [])"

definition initial_ui :: ui_state where
  "initial_ui = \<lparr>currentArticle = None, searchHistory = [], storedHistory = None,
                 modalActive = False, bodyOverflow = [], articleFrameSrc = []\<rparr>"

definition closeArticleModal :: "ui_state \<Rightarrow> ui_state" where
  "closeArticleModal s =
     s\<lparr>modalActive := False, bodyOverflow := [], currentArticle := None,
       articleFrameSrc := ''about:blank''\<rparr>"

section \<open>The Reader module: regular-expression replacement\<close>

text \<open>
  \<open>markdownToHtml\<close> is a chain of \<open>String.prototype.replace\<close> calls with global
  regular expressions. A pattern is modelled by what it does at one position: given
  whether the position starts a line (for \<open>^\<close> under the \<open>m\<close> flag) and the rest of
  the input from there, it returns the length of the match and the text that replaces it,
  or \<open>None\<close> when the pattern does not match there. \<open>replace_all\<close> is the global
  replacement: the leftmost match is replaced, the search resumes behind it, and a
  character at which nothing matches is copied. Every pattern of the module consumes at
  least one character, so no match is empty and none starts at the end of the input.
\<close>

type_synonym matcher = "bool \<Rightarrow> string \<Rightarrow> (nat \<times> string) option"

function replace_all :: "matcher \<Rightarrow> bool \<Rightarrow> string \<Rightarrow> string" where
  "replace_all m at_start [] = []"
| "replace_all m at_start (c # cs) =
     (case m at_start (c # cs) of
        Some (len, replacement) \<Rightarrow>
          replacement @
          replace_all m (is_line_terminator (last (take len (c # cs)))) (drop (len - 1) cs)
      | None \<Rightarrow> c # replace_all m (is_line_terminator c) cs)"
  by pat_completeness auto
termination
  by (relation "measure (\<lambda>(m, b, s). length s)") auto

definition not_line_terminator :: "char \<Rightarrow> bool" where
  "not_line_terminator c = (\<not> is_line_terminator c)"

definition element :: "string \<Rightarrow> string \<Rightarrow> string" where
  \<comment> \<open>The replacement text \<open><tag>$1</tag>\<close>.\<close>
  "element tag inner = ''<'' @ tag @ ''>'' @ inner @ ''</'' @ tag @ ''>''"

definition header_match :: "string \<Rightarrow> string \<Rightarrow> matcher" where
  \<comment> \<open>\<open>/^### (.*$)/gim\<close> and its two shorter forms: at a line start, the marker and
      then the rest of the line (\<open>.\<close> matches no line terminator).\<close>
  "header_match marker tag at_start s =
     (if at_start \<and> prefix marker s
      then let line = takeWhile not_line_terminator (drop (length marker) s)
           in Some (length marker + length line, element tag line)
      else None)"

fun lazy_until :: "string \<Rightarrow> string \<Rightarrow> string option" where
  \<comment> \<open>\<open>(.*?)\<close> followed by a literal: the shortest run of characters other than
      line terminators after which the literal follows.\<close>
  "lazy_until lit [] = (if lit = [] then Some [] else None)"
| "lazy_until lit (c # cs) =
     (if prefix lit (c # cs) then Some []
      else if is_line_terminator c then None
      else map_option ((#) c) (lazy_until lit cs))"

definition emphasis_match :: "string \<Rightarrow> string \<Rightarrow> matcher" where
  \<comment> \<open>\<open>/\*\*(.*?)\*\*/gim\<close> with \<open>lit = **\<close> and \<open>/\*(.*?)\*/gim\<close> with \<open>lit = *\<close>.\<close>
  "emphasis_match lit tag at_start s =
     (if prefix lit s
      then (case lazy_until lit (drop (length lit) s) of
              Some inner \<Rightarrow> Some (2 * length lit + length inner, element tag inner)
            | None \<Rightarrow> None)
      else None)"

definition anchor :: "string \<Rightarrow> string \<Rightarrow> string" where
  \<open>anchor href txt =
     ''<a href="'' @ href @ ''" target="_blank" rel="noopener noreferrer">'' @ txt @ ''</a>''\<close>

definition img :: "string \<Rightarrow> string \<Rightarrow> string" where
  \<open>img src alt = ''<img src="'' @ src @ ''" alt="'' @ alt @ ''" loading="lazy">''\<close>

definition bracketed :: "bool \<Rightarrow> string \<Rightarrow> (string \<times> string \<times> nat) option" where
  \<comment> \<open>\<open>([^\]]+)\]\(([^)]+)\)\<close> read just behind an opening bracket (with \<open>*\<close> in
      place of the first \<open>+\<close> when \<open>empty_ok\<close>): the two groups and the number of
      characters read. A negated class also matches line terminators; being greedy and
      followed by the character it excludes, each group is the whole run up to the first
      \<open>]\<close>, respectively \<open>)\<close>.\<close>
  "bracketed empty_ok s =
     (let g1 = takeWhile (\<lambda>c. c \<noteq> CHR '']'') s;
          r1 = dropWhile (\<lambda>c. c \<noteq> CHR '']'') s
      in if (g1 \<noteq> [] \<or> empty_ok) \<and> prefix '']('' r1
         then let g2 = takeWhile (\<lambda>c. c \<noteq> CHR '')'') (drop 2 r1);
                  r2 = dropWhile (\<lambda>c. c \<noteq> CHR '')'') (drop 2 r1)
              in if g2 \<noteq> [] \<and> r2 \<noteq> []
                 then Some (g1, g2, length g1 + 2 + length g2 + 1)
                 else None
         else None)"

definition link_match :: matcher where
  \<comment> \<open>\<open>/\[([^\]]+)\]\(([^)]+)\)/gim\<close>\<close>
  "link_match at_start s =
     (if prefix ''['' s
      then (case bracketed False (drop 1 s) of
              Some (txt, href, n) \<Rightarrow> Some (1 + n, anchor href txt)
            | None \<Rightarrow> None)
      else None)"

definition image_match :: matcher where
  \<comment> \<open>\<open>/!\[([^\]]*)\]\(([^)]+)\)/gim\<close>\<close>
  "image_match at_start s =
     (if prefix ''!['' s
      then (case bracketed True (drop 2 s) of
              Some (alt, src, n) \<Rightarrow> Some (2 + n, img src alt)
            | None \<Rightarrow> None)
      else None)"

definition literal_match :: "string \<Rightarrow> string \<Rightarrow> matcher" where
  \<comment> \<open>\<open>/\n\n/gim\<close> and \<open>/\n/gim\<close>\<close>
  "literal_match lit replacement at_start s =
     (if prefix lit s then Some (length lit, replacement) else None)"

definition js_replace :: "matcher \<Rightarrow> string \<Rightarrow> string" where
  \<comment> \<open>\<open>s.replace(re, replacement)\<close> for a global \<open>re\<close>: the search starts at index 0,
      which starts a line.\<close>
  "js_replace m s = replace_all m True s"

section \<open>The Reader module: markdown, sanitising, formatting, fetching\<close>

definition no_content :: string where
  "no_content = ''<p>No content available</p>''"

definition markdownToHtml :: "string option \<Rightarrow> string" where
  \<comment> \<open>\<open>None\<close> is a missing argument (\<open>undefined\<close> or \<open>null\<close>); it and the empty
      string are the falsy inputs.\<close>
  "markdownToHtml markdown =
     (case markdown of
        None \<Rightarrow> no_content
      | Some md \<Rightarrow>
          if md = [] then no_content
          else
            let html = md;
                html = js_replace (header_match ''### '' ''h3'') html;
                html = js_replace (header_match ''## '' ''h2'') html;
                html = js_replace (header_match ''# '' ''h1'') html;
                html = js_replace (emphasis_match ''**'' ''strong'') html;
                html = js_replace (emphasis_match ''*'' ''em'') html;
                html = js_replace link_match html;
                html = js_replace image_match html;
                html = js_replace (literal_match ''\<newline>\<newline>'' ''</p><p>'') html;
                html = js_replace (literal_match ''\<newline>'' ''<br>'') html;
                html = ''<p>'' @ html @ ''</p>''
            in html)"









text \<open>
  The tree that the browser builds for \<open>tempDiv.innerHTML = html\<close>: the child nodes
  of \<open>tempDiv\<close> in document order. Parsing and serialising are the browser's; the
  module receives them through \<open>platform\<close>, together with \<open>fetch\<close> and
  \<open>encodeURIComponent\<close>. Element names are stored as the parser delivers them (lower
  case for HTML elements). The contents of a \<open>template\<close> element are not its children:
  they form a document fragment of their own, which \<open>getElementsByTagName\<close> does not
  enter and which \<open>innerHTML\<close> writes out. \<open>Template\<close> is such an element, with its
  attributes and its contents.
\<close>

datatype node =
    Text string
  | Comment string
  | Element string "(string \<times> string) list" "node list"
  | Template "(string \<times> string) list" "node list"

record response =
  status :: nat
  statusText :: string
  body :: "string + string"
    \<comment> \<open>\<open>response.text()\<close>: \<open>Inr\<close> the text, \<open>Inl\<close> the message of the error it
        rejects with\<close>

datatype outcome = Rejected string | Responded response

record request =
  request_url :: string
  request_headers :: "(string \<times> string) list"

record platform =
  encodeURIComponent :: "string \<Rightarrow> string"
  fetch :: "request \<Rightarrow> outcome"
  set_innerHTML :: "string \<Rightarrow> node list"
  get_innerHTML :: "node list \<Rightarrow> string"

fun remove_elements :: "string \<Rightarrow> node list \<Rightarrow> node list" where
  \<comment> \<open>\<open>getElementsByTagName(tag)\<close> lists every descendant element of that name, and
      the loop removes each from its parent, last first; what is left is the tree without
      them.\<close>
  "remove_elements tag [] = []"
| "remove_elements tag (Text t # ns) = Text t # remove_elements tag ns"
| "remove_elements tag (Comment t # ns) = Comment t # remove_elements tag ns"
| "remove_elements tag (Element name attrs children # ns) =
     (if name = tag then remove_elements tag ns
      else Element name attrs (remove_elements tag children) # remove_elements tag ns)"
| "remove_elements tag (Template attrs inner # ns) =
     (if tag = ''template'' then remove_elements tag ns
      else Template attrs inner # remove_elements tag ns)"

fun contains_element :: "string \<Rightarrow> node list \<Rightarrow> bool" where
  \<comment> \<open>Whether \<open>getElementsByTagName(tag)\<close> is non-empty on the tree.\<close>
  "contains_element tag [] = False"
| "contains_element tag (Text t # ns) = contains_element tag ns"
| "contains_element tag (Comment t # ns) = contains_element tag ns"
| "contains_element tag (Element name attrs children # ns) =
     (name = tag \<or> contains_element tag children \<or> contains_element tag ns)"
| "contains_element tag (Template attrs inner # ns) =
     (tag = ''template'' \<or> contains_element tag ns)"

definition parseContent :: "platform \<Rightarrow> string option \<Rightarrow> string" where
  "parseContent P html =
     (case html of
        None \<Rightarrow> no_content
      | Some h \<Rightarrow>
          if h = [] then no_content
          else
            let tempDiv = set_innerHTML P h;
                tempDiv = remove_elements ''script'' tempDiv;
                tempDiv = remove_elements ''style'' tempDiv
            in get_innerHTML P tempDiv)"

text \<open>
  Writing a tree with \<open>innerHTML\<close> and reading the result back does not return the
  same tree in general: two text nodes in a row come back as one, and an empty text node
  does not come back. \<open>merge_text\<close> is the tree with these merged and dropped, and
  \<open>round_trip P t\<close> says that on the tree \<open>t\<close> the platform does just that: it reads
  what it wrote for \<open>t\<close> as \<open>merge_text t\<close>, and writes \<open>merge_text t\<close> as it wrote
  \<open>t\<close>.
\<close>

fun merge_text :: "node list \<Rightarrow> node list" where
  "merge_text [] = []"
| "merge_text (Text a # Text b # ns) = merge_text (Text (a @ b) # ns)"
| "merge_text (Text a # ns) = (if a = [] then merge_text ns else Text a # merge_text ns)"
| "merge_text (Comment t # ns) = Comment t # merge_text ns"
| "merge_text (Element name attrs children # ns) =
     Element name attrs (merge_text children) # merge_text ns"
| "merge_text (Template attrs inner # ns) =
     Template attrs (merge_text inner) # merge_text ns"

definition round_trip :: "platform \<Rightarrow> node list \<Rightarrow> bool" where
  "round_trip P t =
     (set_innerHTML P (get_innerHTML P t) = merge_text t
      \<and> get_innerHTML P (merge_text t) = get_innerHTML P t)"

text \<open>
  The values a field of the result object can hold, as far as \<open>!v\<close> and \<open>typeof v\<close>
  tell them apart. A number is represented by an integer (zero is the falsy one).
\<close>

datatype jsval = Undefined | Null | Boolean bool | Number int | Str string | Object

fun truthy :: "jsval \<Rightarrow> bool" where
  "truthy Undefined = False"
| "truthy Null = False"
| "truthy (Boolean b) = b"
| "truthy (Number n) = (n \<noteq> 0)"
| "truthy (Str s) = (s \<noteq> [])"
| "truthy Object = True"

fun typeof :: "jsval \<Rightarrow> string" where
  "typeof Undefined = ''undefined''"
| "typeof Null = ''object''"
| "typeof (Boolean b) = ''boolean''"
| "typeof (Number n) = ''number''"
| "typeof (Str s) = ''string''"
| "typeof Object = ''object''"

text \<open>
  The object that \<open>fetchArticleContent\<close> resolves to and \<open>formatContent\<close> reads. Its
  \<open>title\<close>, \<open>description\<close>, \<open>author\<close> and \<open>publishedTime\<close> are always the empty string
  and never read; they are left out.
\<close>

record contentData =
  success :: bool
  content :: jsval
  error :: "string option"

definition error_block :: "string \<Rightarrow> string option \<Rightarrow> string" where
  \<comment> \<open>The template of the failure branch; \<open>a || b\<close> is \<open>b\<close> when \<open>a\<close> is missing or
      empty.\<close>
  \<open>error_block key err =
     ''\<newline>                <div class="reader-error">'' @
     ''\<newline>                    <h3>Unable to load article content</h3>'' @
     ''\<newline>                    <p>'' @
     (case err of
        None \<Rightarrow> ''Please try the embedded view or open the original article.''
      | Some e \<Rightarrow>
          if e = [] then ''Please try the embedded view or open the original article.''
          else e) @
     ''</p>'' @
     ''\<newline>                    '' @
     (if key = []
      then ''<p><small>Tip: Add a free Jina API key in reader.js for higher rate limits (200 req/min instead of 20)</small></p>''
      else []) @
     ''\<newline>                </div>'' @
     ''\<newline>            ''\<close>

definition invalid_block :: string where
  \<open>invalid_block =
     ''\<newline>                <div class="reader-error">'' @
     ''\<newline>                    <h3>Invalid content format</h3>'' @
     ''\<newline>                    <p>The article content could not be parsed. Please try the embedded view.</p>'' @
     ''\<newline>                </div>'' @
     ''\<newline>            ''\<close>

definition formatContent :: "platform \<Rightarrow> string \<Rightarrow> contentData \<Rightarrow> string" where
  \<comment> \<open>\<open>key\<close> is \<open>Reader.JINA_API_KEY\<close>.\<close>
  "formatContent P key cd =
     (if \<not> success cd then error_block key (error cd)
      else if \<not> truthy (content cd) \<or> typeof (content cd) \<noteq> ''string'' then invalid_block
      else
        (case content cd of
           Str c \<Rightarrow>
             if str_includes c ''<html'' \<or> str_includes c ''<!DOCTYPE''
             then parseContent P (Some c)
             else if str_includes c ''<p>'' \<or> str_includes c ''<div>''
                     \<or> str_includes c ''<article>''
             then parseContent P (Some c)
             else markdownToHtml (Some c)
         | _ \<Rightarrow> invalid_block))"

function decimal :: "nat \<Rightarrow> string" where
  \<comment> \<open>A status code as the template literal prints it.\<close>
  "decimal n = (if n < 10 then [char_of (48 + n)] else decimal (n div 10) @ [char_of (48 + n mod 10)])"
  by pat_completeness auto
termination
  by (relation "measure id") auto

definition build_request :: "platform \<Rightarrow> string \<Rightarrow> string \<Rightarrow> request" where
  "build_request P key article_url =
     \<lparr>request_url = ''https://r.jina.ai/'' @ encodeURIComponent P article_url,
      request_headers =
        (''Accept'', ''text/plain'') #
        (if key \<noteq> [] then [(''Authorization'', ''Bearer '' @ key)] else [])\<rparr>"

definition response_ok :: "response \<Rightarrow> bool" where
  \<comment> \<open>\<open>response.ok\<close>: the status is in the range 200 to 299.\<close>
  "response_ok r = (200 \<le> status r \<and> status r \<le> 299)"

definition fetch_attempt :: "platform \<Rightarrow> string \<Rightarrow> string \<Rightarrow> string + string" where
  \<comment> \<open>The body of the \<open>try\<close> block: \<open>Inl\<close> the message of the error thrown, \<open>Inr\<close> the
      content returned.\<close>
  "fetch_attempt P key article_url =
     (case fetch P (build_request P key article_url) of
        Rejected message \<Rightarrow> Inl message
      | Responded r \<Rightarrow>
          if \<not> response_ok r then
            (if status r = 401
             then Inl ''Authentication failed. Check your Jina API key or remove it to use free tier.''
             else if status r = 429
             then Inl ''Rate limit exceeded. Try adding a free Jina API key in reader.js''
             else Inl (''HTTP '' @ decimal (status r) @ '': '' @ statusText r))
          else
            (case body r of
               Inl message \<Rightarrow> Inl message
             | Inr c \<Rightarrow>
                 if c = [] \<or> length (trim c) = 0
                 then Inl ''Empty response from Jina AI Reader''
                 else Inr c))"

definition fetchArticleContent :: "platform \<Rightarrow> string \<Rightarrow> string \<Rightarrow> contentData" where
  "fetchArticleContent P key article_url =
     (case fetch_attempt P key article_url of
        Inr c \<Rightarrow> \<lparr>success = True, content = Str c, error = None\<rparr>
      | Inl message \<Rightarrow> \<lparr>success = False, content = Undefined, error = Some message\<rparr>)"

definition extractContent :: "platform \<Rightarrow> string \<Rightarrow> string \<Rightarrow> string" where
  \<comment> \<open>Neither call throws, so the \<open>catch\<close> branch of the source is never taken.\<close>
  "extractContent P key article_url = formatContent P key (fetchArticleContent P key article_url)"

section \<open>A reference platform\<close>

text \<open>
  A small instance of \<open>platform\<close>, used to run the module on concrete inputs. Its
  parser implements a part of the HTML standard's fragment parsing for a \<open>div\<close>, and
  \<open>ref_covered\<close> below delimits the inputs on which it is meant to build the browser's
  tree: the input is the serialisation of its own tree, and that tree

    \<^item> has elements named \<open>a\<close>, \<open>article\<close>, \<open>b\<close>, \<open>br\<close>, \<open>div\<close>, \<open>em\<close>, \<open>h1\<close> to \<open>h6\<close>,
      \<open>hr\<close>, \<open>i\<close>, \<open>img\<close>, \<open>p\<close>, \<open>section\<close>, \<open>span\<close>, \<open>strong\<close>, \<open>script\<close>, \<open>style\<close>
      and \<open>template\<close> only;
    \<^item> has attribute names of lower-case letters, digits and hyphens, no name twice on
      an element, and attribute values without \<open>&\<close>, \<open><\<close>, \<open>>\<close>, the double quote, the
      no-break space, NUL and CR;
    \<^item> has non-empty text without \<open>&\<close>, \<open><\<close>, \<open>>\<close>, the no-break space, NUL and CR, no
      two text nodes in a row, and in a \<open>script\<close> or \<open>style\<close> element at most one text
      without \<open><\<close>, NUL and CR;
    \<^item> has, below a \<open>p\<close> (and up to the next \<open>template\<close>), none of the elements whose
      start tag closes a \<open>p\<close>; has no heading below a heading and no \<open>a\<close> below an \<open>a\<close>.

  So a covered input spells every tag in lower case without spaces, quotes every
  attribute value with double quotes, closes every element but the void ones by its
  own end tag, and nests the elements properly.

  Beyond these inputs the parser still follows the standard in the following: tag and
  attribute names are read in lower case, attributes are read with their three ways of
  quoting, the first of two attributes of the same name is kept, and the attributes of
  an end tag are dropped; the content of \<open>script\<close> and \<open>style\<close> is raw text up to the
  end tag; the start tags of \<open>html\<close>, \<open>head\<close> and \<open>body\<close> are ignored; a start tag
  named in \<open>closes_p\<close> closes the \<open>p\<close> that is open in button scope, and \<open></p>\<close> without
  such a \<open>p\<close> inserts an empty one; an end tag closes the innermost element of its name
  that is open in scope, with everything inside it, and is ignored when there is none;
  what is open at the end of the input is closed there. It does not implement the
  rest of the standard: comments, doctypes and character references, a \<open><\<close> that starts
  no tag, \<open>>\<close> inside a quoted attribute value, the replacement of CR and NUL, the other
  raw-text and escapable elements, the rebuilding of formatting elements (\<open>a\<close>, \<open>b\<close>,
  \<open>em\<close>, \<open>i\<close>, \<open>strong\<close>) that a closed block leaves open, the end tags that stop at a
  special element, the implied end tags of list items, options and headings, tables,
  forms, \<open>select\<close>, and foreign (SVG and MathML) content. On inputs that need any of
  these its tree is not the browser's, and none of them is evaluated in a theorem below.

  The serialiser writes a tree the way \<open>innerHTML\<close> reads.
\<close>

definition is_html_space :: "char \<Rightarrow> bool" where
  \<comment> \<open>Tab, line feed, form feed, carriage return and space.\<close>
  "is_html_space c = (c \<in> set [CHR 0x09, CHR 0x0A, CHR 0x0C, CHR 0x0D, CHR 0x20])"

datatype attr_state =
    BeforeName
  | InName string
  | AfterName string
  | BeforeValue string
  | Quoted char string string
  | Unquoted string string

fun lex_attributes :: "attr_state \<Rightarrow> string \<Rightarrow> (string \<times> string) list" where
  \<comment> \<open>The attributes written in a tag behind its name. \<open>/\<close> outside a value is
      skipped, as is white space.\<close>
  "lex_attributes BeforeName [] = []"
| "lex_attributes BeforeName (c # cs) =
     (if is_html_space c \<or> c = CHR ''/'' then lex_attributes BeforeName cs
      else lex_attributes (InName [toLowerCase_char c]) cs)"
| "lex_attributes (InName n) [] = [(n, [])]"
| "lex_attributes (InName n) (c # cs) =
     (if is_html_space c then lex_attributes (AfterName n) cs
      else if c = CHR ''/'' then (n, []) # lex_attributes BeforeName cs
      else if c = CHR ''='' then lex_attributes (BeforeValue n) cs
      else lex_attributes (InName (n @ [toLowerCase_char c])) cs)"
| "lex_attributes (AfterName n) [] = [(n, [])]"
| "lex_attributes (AfterName n) (c # cs) =
     (if is_html_space c then lex_attributes (AfterName n) cs
      else if c = CHR ''/'' then (n, []) # lex_attributes BeforeName cs
      else if c = CHR ''='' then lex_attributes (BeforeValue n) cs
      else (n, []) # lex_attributes (InName [toLowerCase_char c]) cs)"
| "lex_attributes (BeforeValue n) [] = [(n, [])]"
| "lex_attributes (BeforeValue n) (c # cs) =
     (if is_html_space c then lex_attributes (BeforeValue n) cs
      else if c = CHR 0x22 \<or> c = CHR 0x27 then lex_attributes (Quoted c n []) cs
      else lex_attributes (Unquoted n [c]) cs)"
| "lex_attributes (Quoted q n v) [] = [(n, v)]"
| "lex_attributes (Quoted q n v) (c # cs) =
     (if c = q then (n, v) # lex_attributes BeforeName cs
      else lex_attributes (Quoted q n (v @ [c])) cs)"
| "lex_attributes (Unquoted n v) [] = [(n, v)]"
| "lex_attributes (Unquoted n v) (c # cs) =
     (if is_html_space c then (n, v) # lex_attributes BeforeName cs
      else lex_attributes (Unquoted n (v @ [c])) cs)"

fun keep_first :: "string list \<Rightarrow> (string \<times> string) list \<Rightarrow> (string \<times> string) list" where
  \<comment> \<open>Of the attributes of one name the first is kept.\<close>
  "keep_first seen [] = []"
| "keep_first seen (a # as) =
     (if fst a \<in> set seen then keep_first seen as else a # keep_first (fst a # seen) as)"

definition in_tag_name :: "char \<Rightarrow> bool" where
  "in_tag_name c = (\<not> is_html_space c \<and> c \<noteq> CHR ''/'')"

definition tag_name :: "string \<Rightarrow> string" where
  \<comment> \<open>The name of the tag written as \<open><inside>\<close> or \<open></inside>\<close>.\<close>
  "tag_name inside = toLowerCase (takeWhile in_tag_name (if prefix ''/'' inside then drop 1 inside else inside))"

datatype token = Chars string | StartTag string "(string \<times> string) list" | EndTag string

datatype lex_state = Data string | Tag string | RawText string string

definition flush :: "string \<Rightarrow> token list" where
  "flush acc = (if acc = [] then [] else [Chars acc])"

definition tag_token :: "string \<Rightarrow> token" where
  "tag_token inside =
     (if prefix ''/'' inside then EndTag (tag_name inside)
      else StartTag (tag_name inside)
             (keep_first [] (lex_attributes BeforeName (dropWhile in_tag_name inside))))"

definition raw_text_elements :: "string list" where
  "raw_text_elements = [''script'', ''style'']"

definition void_elements :: "string list" where
  "void_elements = [''area'', ''base'', ''br'', ''col'', ''embed'', ''hr'', ''img'', ''input'',
                    ''link'', ''meta'', ''source'', ''track'', ''wbr'']"

definition ends_raw_text :: "string \<Rightarrow> string \<Rightarrow> bool" where
  \<comment> \<open>Whether the end tag of the raw-text element \<open>name\<close> starts here: \<open></name\<close> in
      either case of the letters, followed by white space, \<open>/\<close> or \<open>>\<close>.\<close>
  "ends_raw_text name s =
     (toLowerCase (take (length name + 2) s) = ''</'' @ name
      \<and> (case drop (length name + 2) s of
            [] \<Rightarrow> False
          | d # ds \<Rightarrow> is_html_space d \<or> d = CHR ''/'' \<or> d = CHR ''>''))"

fun lex_html :: "lex_state \<Rightarrow> string \<Rightarrow> token list" where
  "lex_html (Data acc) [] = flush acc"
| "lex_html (Data acc) (c # cs) =
     (if c = CHR ''<'' then flush acc @ lex_html (Tag []) cs
      else lex_html (Data (acc @ [c])) cs)"
| "lex_html (Tag acc) [] = []"
| "lex_html (Tag acc) (c # cs) =
     (if c = CHR ''>''
      then tag_token acc #
           lex_html (if \<not> prefix ''/'' acc \<and> tag_name acc \<in> set raw_text_elements
                     then RawText (tag_name acc) [] else Data []) cs
      else lex_html (Tag (acc @ [c])) cs)"
| "lex_html (RawText name acc) [] = flush acc"
| "lex_html (RawText name acc) (c # cs) =
     (if ends_raw_text name (c # cs)
      then flush acc @ lex_html (Tag []) cs
      else lex_html (RawText name (acc @ [c])) cs)"

type_synonym open_element = "string \<times> (string \<times> string) list \<times> node list"

definition mk_element :: "string \<Rightarrow> (string \<times> string) list \<Rightarrow> node list \<Rightarrow> node" where
  "mk_element name attrs children =
     (if name = ''template'' then Template attrs children else Element name attrs children)"

definition ignored_start_tags :: "string list" where
  "ignored_start_tags = [''html'', ''head'', ''body'']"

definition closes_p :: "string list" where
  \<comment> \<open>The start tags that first close a \<open>p\<close> element open in button scope.\<close>
  "closes_p = [''address'', ''article'', ''aside'', ''blockquote'', ''center'', ''details'',
               ''dialog'', ''dir'', ''div'', ''dl'', ''fieldset'', ''figcaption'', ''figure'',
               ''footer'', ''header'', ''hgroup'', ''main'', ''menu'', ''nav'', ''ol'', ''p'',
               ''search'', ''section'', ''summary'', ''ul'', ''h1'', ''h2'', ''h3'', ''h4'',
               ''h5'', ''h6'', ''pre'', ''listing'', ''form'', ''li'', ''dd'', ''dt'',
               ''plaintext'', ''table'', ''hr'', ''xmp'']"

definition scope_limits :: "string list" where
  "scope_limits = [''applet'', ''caption'', ''html'', ''table'', ''td'', ''th'', ''marquee'',
                   ''object'', ''template'']"

fun open_in_scope :: "string list \<Rightarrow> string \<Rightarrow> open_element list \<Rightarrow> bool" where
  \<comment> \<open>Whether an element \<open>name\<close> is open with no element of \<open>limits\<close> open inside
      it.\<close>
  "open_in_scope limits name [] = False"
| "open_in_scope limits name ((open_name, attrs, before) # stack) =
     (open_name = name \<or> (open_name \<notin> set limits \<and> open_in_scope limits name stack))"

definition p_in_button_scope :: "open_element list \<Rightarrow> bool" where
  "p_in_button_scope stack = open_in_scope (''button'' # scope_limits) ''p'' stack"

fun close_all :: "open_element list \<Rightarrow> node list \<Rightarrow> node list" where
  "close_all [] children = children"
| "close_all ((name, attrs, before) # stack) children =
     close_all stack (before @ [mk_element name attrs children])"

fun close_until ::
  "string \<Rightarrow> open_element list \<Rightarrow> node list \<Rightarrow> open_element list \<times> node list" where
  "close_until name [] children = ([], children)"
| "close_until name ((open_name, attrs, before) # stack) children =
     (if open_name = name then (stack, before @ [mk_element open_name attrs children])
      else close_until name stack (before @ [mk_element open_name attrs children]))"

fun add_text :: "node list \<Rightarrow> string \<Rightarrow> node list" where
  \<comment> \<open>Characters go to the text node that ends the children, if there is one.\<close>
  "add_text [] t = [Text t]"
| "add_text [Text u] t = [Text (u @ t)]"
| "add_text (n # ns) t = n # add_text ns t"

fun build_tree :: "token list \<Rightarrow> open_element list \<Rightarrow> node list \<Rightarrow> node list" where
  \<comment> \<open>The stack holds each open element with its attributes and the siblings before
      it; \<open>children\<close> are the children read so far of the innermost open element.\<close>
  "build_tree [] stack children = close_all stack children"
| "build_tree (Chars t # ts) stack children = build_tree ts stack (add_text children t)"
| "build_tree (StartTag name attrs # ts) stack children =
     (if name \<in> set ignored_start_tags then build_tree ts stack children
      else
        (case (if name \<in> set closes_p \<and> p_in_button_scope stack
               then close_until ''p'' stack children else (stack, children)) of
           (stack', children') \<Rightarrow>
             if name \<in> set void_elements
             then build_tree ts stack' (children' @ [Element name attrs []])
             else build_tree ts ((name, attrs, children') # stack') []))"
| "build_tree (EndTag name # ts) stack children =
     (if name = ''p'' \<and> \<not> p_in_button_scope stack
      then build_tree ts stack (children @ [Element ''p'' [] []])
      else if open_in_scope scope_limits name stack
      then (case close_until name stack children of
              (stack', children') \<Rightarrow> build_tree ts stack' children')
      else build_tree ts stack children)"

definition ref_parse :: "string \<Rightarrow> node list" where
  "ref_parse html = build_tree (lex_html (Data []) html) [] []"

definition escape_text :: "string \<Rightarrow> string" where
  "escape_text t =
     concat (map (\<lambda>c. if c = CHR ''&'' then ''&amp;'' else if c = CHR ''<'' then ''&lt;''
                       else if c = CHR ''>'' then ''&gt;'' else if c = CHR 0xA0 then ''&nbsp;''
                       else [c]) t)"

definition escape_attribute :: "string \<Rightarrow> string" where
  \<open>escape_attribute v =
     concat (map (\<lambda>c. if c = CHR ''&'' then ''&amp;'' else if c = CHR 0x22 then ''&quot;''
                       else if c = CHR 0xA0 then ''&nbsp;'' else [c]) v)\<close>

definition attribute_text :: "string \<times> string \<Rightarrow> string" where
  \<open>attribute_text a = '' '' @ fst a @ ''="'' @ escape_attribute (snd a) @ ''"''\<close>

fun ref_serialize_in :: "bool \<Rightarrow> node list \<Rightarrow> string" where
  \<comment> \<open>\<open>raw\<close>: the nodes are children of a \<open>script\<close> or \<open>style\<close> element, whose text is
      written as it is. A template is written with its contents.\<close>
  "ref_serialize_in raw [] = []"
| "ref_serialize_in raw (Text t # ns) =
     (if raw then t else escape_text t) @ ref_serialize_in raw ns"
| "ref_serialize_in raw (Element name attrs children # ns) =
     ''<'' @ name @ concat (map attribute_text attrs) @ ''>'' @
     (if name \<in> set void_elements then []
      else ref_serialize_in (name \<in> set raw_text_elements) children @ ''</'' @ name @ ''>'') @
     ref_serialize_in raw ns"
| "ref_serialize_in raw (Template attrs inner # ns) =
     ''<template'' @ concat (map attribute_text attrs) @ ''>'' @
     ref_serialize_in False inner @ ''</template>'' @
     ref_serialize_in raw ns"

definition ref_serialize :: "node list \<Rightarrow> string" where
  "ref_serialize ns = ref_serialize_in False ns"

definition covered_elements :: "string list" where
  "covered_elements = [''a'', ''article'', ''b'', ''br'', ''div'', ''em'', ''h1'', ''h2'', ''h3'',
                       ''h4'', ''h5'', ''h6'', ''hr'', ''i'', ''img'', ''p'', ''section'',
                       ''span'', ''strong'', ''script'', ''style'']"

definition headings :: "string list" where
  "headings = [''h1'', ''h2'', ''h3'', ''h4'', ''h5'', ''h6'']"

definition plain_char :: "char \<Rightarrow> bool" where
  "plain_char c = (c \<notin> set [CHR 0x00, CHR 0x0D, CHR ''&'', CHR ''<'', CHR ''>'', CHR 0xA0])"

definition covered_attributes :: "(string \<times> string) list \<Rightarrow> bool" where
  "covered_attributes attrs =
     (list_all (\<lambda>a. fst a \<noteq> []
                   \<and> list_all (\<lambda>c. c \<in> set ''abcdefghijklmnopqrstuvwxyz0123456789-'') (fst a)
                   \<and> list_all (\<lambda>c. plain_char c \<and> c \<noteq> CHR 0x22) (snd a)) attrs
      \<and> distinct (map fst attrs))"

definition covered_raw_text :: "node list \<Rightarrow> bool" where
  "covered_raw_text children =
     (case children of
        [] \<Rightarrow> True
      | [Text t] \<Rightarrow> t \<noteq> [] \<and> list_all (\<lambda>c. c \<notin> set [CHR 0x00, CHR 0x0D, CHR ''<'']) t
      | _ \<Rightarrow> False)"

fun covered_nodes :: "string list \<Rightarrow> node list \<Rightarrow> bool" where
  \<comment> \<open>\<open>around\<close>: the names of the elements around the nodes, up to the next
      template.\<close>
  "covered_nodes around [] = True"
| "covered_nodes around (Text t # ns) =
     (t \<noteq> [] \<and> list_all plain_char t
      \<and> (case ns of Text u # rest \<Rightarrow> False | _ \<Rightarrow> True)
      \<and> covered_nodes around ns)"
| "covered_nodes around (Element name attrs children # ns) =
     (name \<in> set covered_elements \<and> covered_attributes attrs
      \<and> \<not> (name \<in> set closes_p \<and> ''p'' \<in> set around)
      \<and> \<not> (name \<in> set headings \<and> list_ex (\<lambda>h. h \<in> set headings) around)
      \<and> \<not> (name = ''a'' \<and> ''a'' \<in> set around)
      \<and> (if name \<in> set void_elements then children = []
         else if name \<in> set raw_text_elements then covered_raw_text children
         else covered_nodes (name # around) children)
      \<and> covered_nodes around ns)"
| "covered_nodes around (Template attrs inner # ns) =
     (covered_attributes attrs \<and> covered_nodes [] inner \<and> covered_nodes around ns)"

definition ref_covered :: "string \<Rightarrow> bool" where
  "ref_covered html =
     (covered_nodes [] (ref_parse html) \<and> ref_serialize (ref_parse html) = html)"

definition hex_digit :: "nat \<Rightarrow> char" where
  "hex_digit n = ''0123456789ABCDEF'' ! n"

definition percent_byte :: "nat \<Rightarrow> string" where
  "percent_byte n = [CHR ''%'', hex_digit (n div 16), hex_digit (n mod 16)]"

definition percent_encode_char :: "char \<Rightarrow> string" where
  \<comment> \<open>Letters, digits and \<open>-_.!~*'()\<close> stay; any other character is written as the
      bytes of its UTF-8 encoding.\<close>
  "percent_encode_char c =
     (let n = (of_char c :: nat)
      in if (48 \<le> n \<and> n \<le> 57) \<or> (65 \<le> n \<and> n \<le> 90) \<or> (97 \<le> n \<and> n \<le> 122)
            \<or> c \<in> set ''-_.!~*()'' \<or> c = CHR 0x27
         then [c]
         else if n < 128 then percent_byte n
         else percent_byte (192 + n div 64) @ percent_byte (128 + n mod 64))"

definition percent_encode :: "string \<Rightarrow> string" where
  "percent_encode s = concat (map percent_encode_char s)"

definition ref_platform :: "outcome \<Rightarrow> platform" where
  \<comment> \<open>The platform on which every request has the outcome \<open>out\<close>.\<close>
  "ref_platform out =
     \<lparr>encodeURIComponent = percent_encode, fetch = (\<lambda>_. out),
      set_innerHTML = ref_parse, get_innerHTML = ref_serialize\<rparr>"

section \<open>Search history\<close>

lemma history_after_add:
  "searchHistory (addToSearchHistory term s) =
     (if non_blank term
      then take maxSearchHistory
             (trim term # filter (\<lambda>t. toLowerCase t \<noteq> toLowerCase (trim term)) (searchHistory s))
      else searchHistory s)"
  by (auto simp: addToSearchHistory_def saveSearchHistory_def non_blank_def Let_def trim_def)

lemma add_keeps_bound:
  "length (searchHistory s) \<le> maxSearchHistory \<Longrightarrow>
   length (searchHistory (addToSearchHistory term s)) \<le> maxSearchHistory"
  by (simp add: history_after_add)

lemma add_keeps_distinct:
  assumes "distinct (map toLowerCase (searchHistory s))"
  shows "distinct (map toLowerCase (searchHistory (addToSearchHistory term s)))"
proof (cases "non_blank term")
  case False
  with assms show ?thesis by (simp add: history_after_add)
next
  case True
  let ?k = "toLowerCase (trim term)"
  let ?rest = "filter (\<lambda>t. toLowerCase t \<noteq> ?k) (searchHistory s)"
  have fresh: "?k \<notin> set (map toLowerCase ?rest)" by auto
  have "distinct (map toLowerCase ?rest)"
    using assms by (simp add: distinct_map_filter)
  with fresh have "distinct (map toLowerCase (trim term # ?rest))" by simp
  then have "distinct (take maxSearchHistory (map toLowerCase (trim term # ?rest)))"
    by (rule distinct_take)
  then have "distinct (map toLowerCase (take maxSearchHistory (trim term # ?rest)))"
    by (simp only: take_map)
  then show ?thesis using True by (simp only: history_after_add if_True)
qed

lemma add_terms_bound:
  "length (searchHistory s) \<le> maxSearchHistory \<Longrightarrow>
   length (searchHistory (add_terms ts s)) \<le> maxSearchHistory"
  by (induction ts arbitrary: s) (simp_all add: add_keeps_bound)

lemma add_terms_distinct:
  "distinct (map toLowerCase (searchHistory s)) \<Longrightarrow>
   distinct (map toLowerCase (searchHistory (add_terms ts s)))"
  by (induction ts arbitrary: s) (simp_all add: add_keeps_distinct)

lemma add_terms_snoc:
  "add_terms (ts @ [t]) s = addToSearchHistory t (add_terms ts s)"
  by (induction ts arbitrary: s) simp_all

lemma add_terms_head:
  "filter non_blank ts \<noteq> [] \<Longrightarrow>
   searchHistory (add_terms ts s) \<noteq> [] \<and>
   hd (searchHistory (add_terms ts s)) = trim (last (filter non_blank ts))"
proof (induction ts rule: rev_induct)
  case Nil
  then show ?case by simp
next
  case (snoc t ts)
  show ?case
  proof (cases "non_blank t")
    case True
    then show ?thesis
      by (simp add: add_terms_snoc history_after_add maxSearchHistory_def)
  next
    case False
    with snoc show ?thesis
      by (simp add: add_terms_snoc history_after_add)
  qed
qed

lemma add_terms_blank_only:
  "filter non_blank ts = [] \<Longrightarrow> searchHistory (add_terms ts s) = searchHistory s"
  by (induction ts arbitrary: s) (simp_all add: history_after_add split: if_splits)

text \<open>
  C8. Starting from an empty history, after any sequence of calls to
  \<open>addToSearchHistory\<close> the list has at most 5 entries, no two entries are equal once
  lower-cased, and when at least one added term was non-blank the first entry is the
  trimmed form of the last non-blank term added (otherwise the list is still empty).
  Adding \<open>AI\<close> and then \<open>ai\<close> leaves the single entry \<open>ai\<close>.
\<close>

theorem search_history_invariant:
  assumes "searchHistory s = []"
  shows "length (searchHistory (add_terms ts s)) \<le> 5
       \<and> distinct (map toLowerCase (searchHistory (add_terms ts s)))
       \<and> (filter non_blank ts \<noteq> [] \<longrightarrow>
            searchHistory (add_terms ts s) \<noteq> [] \<and>
            hd (searchHistory (add_terms ts s)) = trim (last (filter non_blank ts)))
       \<and> (filter non_blank ts = [] \<longrightarrow> searchHistory (add_terms ts s) = [])
       \<and> searchHistory (add_terms [''AI'', ''ai''] s) = [''ai'']"
proof -
  have "length (searchHistory (add_terms ts s)) \<le> maxSearchHistory"
    using assms by (intro add_terms_bound) simp
  moreover have "distinct (map toLowerCase (searchHistory (add_terms ts s)))"
    using assms by (intro add_terms_distinct) simp
  moreover have "searchHistory (add_terms [''AI'', ''ai''] s) = [''ai'']"
  proof -
    have t: "trim ''AI'' = ''AI''" "trim ''ai'' = ''ai''" by code_simp+
    have l: "toLowerCase ''AI'' = ''ai''" "toLowerCase ''ai'' = ''ai''" by code_simp+
    show ?thesis
      using assms by (simp add: history_after_add non_blank_def t l maxSearchHistory_def)
  qed
  ultimately show ?thesis
    using add_terms_head [of ts s] add_terms_blank_only [of ts s] assms
    by (simp add: maxSearchHistory_def)
qed

theorem search_history_invariant_witness:
  "searchHistory initial_ui = []
   \<and> length (searchHistory (add_terms [''  News '', ''AI'', '' '', ''ai''] initial_ui)) \<le> 5
   \<and> hd (searchHistory (add_terms [''  News '', ''AI'', '' '', ''ai''] initial_ui)) = ''ai''
   \<and> searchHistory (add_terms [''  News '', ''AI'', '' '', ''ai''] initial_ui) = [''ai'', ''News'']"
proof -
  have e: "searchHistory initial_ui = []" by (simp add: initial_ui_def)
  have nb: "filter non_blank [''  News '', ''AI'', '' '', ''ai''] = [''  News '', ''AI'', ''ai'']"
    by code_simp
  have h: "searchHistory (add_terms [''  News '', ''AI'', '' '', ''ai''] initial_ui) = [''ai'', ''News'']"
    by code_simp
  show ?thesis
    using search_history_invariant [OF e, of "[''  News '', ''AI'', '' '', ''ai'']"] e nb h
    by simp
qed

section \<open>Closing the article modal\<close>

text \<open>
  C9. Whatever the state before, after \<open>closeArticleModal\<close> the embedded frame's source
  is \<open>about:blank\<close> and no article is current.
\<close>

theorem closeArticleModal_resets:
  "articleFrameSrc (closeArticleModal s) = ''about:blank''
   \<and> currentArticle (closeArticleModal s) = None"
  by (simp add: closeArticleModal_def)

section \<open>Fetching\<close>

lemma fetch_attempt_cases:
  "fetch_attempt P key u =
     (case fetch P (build_request P key u) of
        Rejected message \<Rightarrow> Inl message
      | Responded r \<Rightarrow>
          if status r = 401
          then Inl ''Authentication failed. Check your Jina API key or remove it to use free tier.''
          else if status r = 429
          then Inl ''Rate limit exceeded. Try adding a free Jina API key in reader.js''
          else if \<not> response_ok r
          then Inl (''HTTP '' @ decimal (status r) @ '': '' @ statusText r)
          else (case body r of
                  Inl message \<Rightarrow> Inl message
                | Inr c \<Rightarrow> if trim c = [] then Inl ''Empty response from Jina AI Reader''
                           else Inr c))"
  by (auto simp: fetch_attempt_def response_ok_def trim_def split: outcome.splits sum.splits)

lemma fetch_ref_platform: "fetch (ref_platform out) req = out"
  by (simp add: ref_platform_def)

text \<open>
  C2. \<open>fetchArticleContent\<close> is a total function of the outcome of the request: it
  always yields a result object. The result is the success object carrying the body
  exactly when the server responded with a status from 200 to 299 and a body that is
  non-empty after trimming. In every other case it is the failure object with a reason:
  the authentication message for 401, the rate-limit message for 429, \<open>HTTP\<close> with the
  status and status text for any other status outside 200 to 299, the empty-response
  message for a blank body, and the platform's own message when the request or the
  reading of the body fails. For a response whose body could be read the reason is never
  empty.
\<close>

theorem fetchArticleContent_resolves:
  fixes P key u
  defines "result \<equiv> fetchArticleContent P key u"
    and "out \<equiv> fetch P (build_request P key u)"
  shows "(success result \<longleftrightarrow>
            (\<exists>r c. out = Responded r \<and> 200 \<le> status r \<and> status r \<le> 299
                   \<and> body r = Inr c \<and> trim c \<noteq> []))
       \<and> (\<forall>r c. out = Responded r \<and> 200 \<le> status r \<and> status r \<le> 299
                   \<and> body r = Inr c \<and> trim c \<noteq> []
              \<longrightarrow> result = \<lparr>success = True, content = Str c, error = None\<rparr>)
       \<and> (\<not> success result \<longrightarrow>
            (\<exists>reason. result = \<lparr>success = False, content = Undefined, error = Some reason\<rparr>))
       \<and> (\<forall>r. out = Responded r \<and> status r = 401 \<longrightarrow>
              error result =
                Some ''Authentication failed. Check your Jina API key or remove it to use free tier.'')
       \<and> (\<forall>r. out = Responded r \<and> status r = 429 \<longrightarrow>
              error result =
                Some ''Rate limit exceeded. Try adding a free Jina API key in reader.js'')
       \<and> (\<forall>r. out = Responded r \<and> \<not> (200 \<le> status r \<and> status r \<le> 299)
                \<and> status r \<noteq> 401 \<and> status r \<noteq> 429 \<longrightarrow>
              error result = Some (''HTTP '' @ decimal (status r) @ '': '' @ statusText r))
       \<and> (\<forall>r c. out = Responded r \<and> 200 \<le> status r \<and> status r \<le> 299
                   \<and> body r = Inr c \<and> trim c = [] \<longrightarrow>
              error result = Some ''Empty response from Jina AI Reader'')
       \<and> (\<forall>r message. out = Responded r \<and> 200 \<le> status r \<and> status r \<le> 299
                   \<and> body r = Inl message \<longrightarrow> error result = Some message)
       \<and> (\<forall>message. out = Rejected message \<longrightarrow> error result = Some message)
       \<and> (\<forall>r c. out = Responded r \<and> body r = Inr c \<and> \<not> success result \<longrightarrow>
              (\<exists>reason. error result = Some reason \<and> reason \<noteq> []))"
  unfolding result_def out_def fetchArticleContent_def fetch_attempt_cases response_ok_def
  by (auto split: outcome.splits sum.splits)

theorem fetchArticleContent_resolves_witness:
  "fetchArticleContent
     (ref_platform (Responded \<lparr>status = 200, statusText = ''OK'', body = Inr ''# Title''\<rparr>))
     [] ''https://example.com/a''
   = \<lparr>success = True, content = Str ''# Title'', error = None\<rparr>
   \<and> error (fetchArticleContent
        (ref_platform (Responded \<lparr>status = 503, statusText = ''Service Unavailable'', body = Inr []\<rparr>))
        [] ''https://example.com/a'')
     = Some ''HTTP 503: Service Unavailable''
   \<and> error (fetchArticleContent
        (ref_platform (Responded \<lparr>status = 200, statusText = ''OK'', body = Inr ''  ''\<rparr>))
        [] ''https://example.com/a'')
     = Some ''Empty response from Jina AI Reader''"
proof -
  let ?u = "''https://example.com/a''"
  let ?ok = "\<lparr>status = 200, statusText = ''OK'', body = Inr ''# Title''\<rparr>"
  let ?down = "\<lparr>status = 503, statusText = ''Service Unavailable'', body = Inr []\<rparr>"
  let ?blank = "\<lparr>status = 200, statusText = ''OK'', body = Inr ''  ''\<rparr>"
  have t: "trim ''# Title'' \<noteq> []" "trim ''  '' = []" by code_simp+
  have d: "decimal 503 = ''503''" by code_simp
  have "fetchArticleContent (ref_platform (Responded ?ok)) [] ?u
          = \<lparr>success = True, content = Str ''# Title'', error = None\<rparr>"
    using fetchArticleContent_resolves [of "ref_platform (Responded ?ok)" "[]" ?u] t
    by (simp add: fetch_ref_platform)
  moreover have "error (fetchArticleContent (ref_platform (Responded ?down)) [] ?u)
          = Some ''HTTP 503: Service Unavailable''"
    using fetchArticleContent_resolves [of "ref_platform (Responded ?down)" "[]" ?u] d
    by (simp add: fetch_ref_platform)
  moreover have "error (fetchArticleContent (ref_platform (Responded ?blank)) [] ?u)
          = Some ''Empty response from Jina AI Reader''"
    using fetchArticleContent_resolves [of "ref_platform (Responded ?blank)" "[]" ?u] t
    by (simp add: fetch_ref_platform)
  ultimately show ?thesis by simp
qed

section \<open>Formatting a result\<close>

text \<open>
  C3. When the server answers 401, \<open>extractContent\<close> returns the error block whose
  paragraph is the authentication message, so the output contains the word
  \<open>Authentication\<close>. The block shows the reason in place of the suggestion to try the
  embedded view: that suggestion is the paragraph only of a failure without a reason.
\<close>

theorem unauthorized_block:
  assumes "fetch P (build_request P key u) = Responded r" and "status r = 401"
  shows "extractContent P key u
           = error_block key
               (Some ''Authentication failed. Check your Jina API key or remove it to use free tier.'')
       \<and> str_includes (extractContent P key u) ''Authentication''
       \<and> \<not> str_includes (extractContent P key u) ''embedded view''
       \<and> str_includes (error_block key None) ''try the embedded view''
       \<and> str_includes (error_block key (Some [])) ''try the embedded view''"
proof -
  let ?m = "''Authentication failed. Check your Jina API key or remove it to use free tier.''"
  have eq: "extractContent P key u = error_block key (Some ?m)"
    using assms
    by (simp add: extractContent_def fetchArticleContent_def fetch_attempt_cases formatContent_def)
  have a: "str_includes (error_block key (Some ?m)) ''Authentication''"
    by (cases "key = []") (simp_all add: error_block_def, code_simp+)
  have b: "\<not> str_includes (error_block key (Some ?m)) ''embedded view''"
    by (cases "key = []") (simp_all add: error_block_def, code_simp+)
  have c: "str_includes (error_block key None) ''try the embedded view''"
    by (cases "key = []") (simp_all add: error_block_def, code_simp+)
  have d: "str_includes (error_block key (Some [])) ''try the embedded view''"
    by (cases "key = []") (simp_all add: error_block_def, code_simp+)
  show ?thesis using eq a b c d by simp
qed

theorem unauthorized_block_witness:
  "str_includes
     (extractContent
        (ref_platform (Responded \<lparr>status = 401, statusText = ''Unauthorized'', body = Inr []\<rparr>))
        ''jina_key'' ''https://example.com/a'')
     ''Authentication''"
proof -
  let ?r = "\<lparr>status = 401, statusText = ''Unauthorized'', body = Inr []\<rparr>"
  let ?P = "ref_platform (Responded ?r)"
  have f: "fetch ?P (build_request ?P ''jina_key'' ''https://example.com/a'') = Responded ?r"
    by (simp add: fetch_ref_platform)
  have s: "status ?r = 401" by simp
  from unauthorized_block [OF f s] show ?thesis by blast
qed

theorem unauthorized_has_no_embed_hint:
  "\<not> (str_includes
         (extractContent
            (ref_platform (Responded \<lparr>status = 401, statusText = ''Unauthorized'', body = Inr []\<rparr>))
            [] ''https://example.com/a'')
         ''Authentication''
       \<and> str_includes
         (toLowerCase (extractContent
            (ref_platform (Responded \<lparr>status = 401, statusText = ''Unauthorized'', body = Inr []\<rparr>))
            [] ''https://example.com/a''))
         ''embed'')"
  by code_simp

text \<open>
  C10. For a result object with \<open>success\<close> set whose \<open>content\<close> is missing, the empty
  string or not a string, \<open>formatContent\<close> returns the non-empty block headed
  \<open>Invalid content format\<close>, which suggests the embedded view; the content is neither
  classified nor converted.
\<close>

theorem invalid_content_block:
  assumes "success cd"
    and "content cd = Undefined \<or> content cd = Str [] \<or> typeof (content cd) \<noteq> ''string''"
  shows "formatContent P key cd = invalid_block
       \<and> str_includes (formatContent P key cd) ''Invalid content format''
       \<and> str_includes (formatContent P key cd) ''Please try the embedded view''
       \<and> formatContent P key cd \<noteq> []"
proof -
  have eq: "formatContent P key cd = invalid_block"
    using assms by (cases "content cd") (auto simp: formatContent_def)
  have "str_includes invalid_block ''Invalid content format''"
    "str_includes invalid_block ''Please try the embedded view''"
    "invalid_block \<noteq> []"
    by code_simp+
  with eq show ?thesis by simp
qed

theorem invalid_content_block_witness:
  "formatContent (ref_platform (Rejected [])) [] \<lparr>success = True, content = Number 42, error = None\<rparr>
     = invalid_block
   \<and> formatContent (ref_platform (Rejected [])) [] \<lparr>success = True, content = Str [], error = None\<rparr>
     = invalid_block"
  using invalid_content_block [of "\<lparr>success = True, content = Number 42, error = None\<rparr>"
      "ref_platform (Rejected [])" "[]"]
    invalid_content_block [of "\<lparr>success = True, content = Str [], error = None\<rparr>"
      "ref_platform (Rejected [])" "[]"]
  by simp

text \<open>
  C1. The content \<open><script>alert(1)</script>\<close> holds none of the markers of the two HTML
  branches, so \<open>formatContent\<close> converts it as markdown, and the script element comes
  out unchanged inside the paragraph: the output contains \<open><script>\<close>.
\<close>

theorem markdown_branch_keeps_script:
  "formatContent P key \<lparr>success = True, content = Str ''<script>alert(1)</script>'', error = None\<rparr>
     = ''<p><script>alert(1)</script></p>''
   \<and> str_includes
        (formatContent P key
           \<lparr>success = True, content = Str ''<script>alert(1)</script>'', error = None\<rparr>)
        ''<script>''"
proof -
  have md: "markdownToHtml (Some ''<script>alert(1)</script>'') = ''<p><script>alert(1)</script></p>''"
    by code_simp
  have branch:
    "\<not> str_includes ''<script>alert(1)</script>'' ''<html''"
    "\<not> str_includes ''<script>alert(1)</script>'' ''<!DOCTYPE''"
    "\<not> str_includes ''<script>alert(1)</script>'' ''<p>''"
    "\<not> str_includes ''<script>alert(1)</script>'' ''<div>''"
    "\<not> str_includes ''<script>alert(1)</script>'' ''<article>''"
    by code_simp+
  have found: "str_includes ''<p><script>alert(1)</script></p>'' ''<script>''"
    by code_simp
  show ?thesis
    by (simp add: formatContent_def md branch found)
qed

theorem markdown_branch_keeps_script_witness:
  "str_includes
     (formatContent (ref_platform (Rejected [])) []
        \<lparr>success = True, content = Str ''<script>alert(1)</script>'', error = None\<rparr>)
     ''<script>''"
  using markdown_branch_keeps_script [of "ref_platform (Rejected [])" "[]"]
  by blast

section \<open>Empty input\<close>

text \<open>
  C4. For an input that is missing or the empty string, \<open>parseContent\<close> and
  \<open>markdownToHtml\<close> both return the placeholder \<open><p>No content available</p>\<close>. (An
  input of white space only is not empty: it is processed like any other content.)
\<close>

theorem empty_input_placeholder:
  assumes "html = None \<or> html = Some []"
  shows "parseContent P html = ''<p>No content available</p>''
       \<and> markdownToHtml html = ''<p>No content available</p>''"
  using assms by (auto simp: parseContent_def markdownToHtml_def no_content_def)

theorem empty_input_placeholder_witness:
  "parseContent (ref_platform (Rejected [])) (Some []) = ''<p>No content available</p>''
   \<and> markdownToHtml None = ''<p>No content available</p>''"
  using empty_input_placeholder [of "Some []" "ref_platform (Rejected [])"]
    empty_input_placeholder [of None "ref_platform (Rejected [])"]
  by simp

theorem blank_markdown_is_wrapped:
  "markdownToHtml (Some '' '') = ''<p> </p>''
   \<and> markdownToHtml (Some '' '') \<noteq> ''<p>No content available</p>''
   \<and> parseContent (ref_platform (Rejected [])) (Some '' '') = '' ''"
  by code_simp

section \<open>Stripping script and style elements\<close>

lemma remove_elements_absent:
  "\<not> contains_element tag ns \<Longrightarrow> remove_elements tag ns = ns"
  by (induction tag ns rule: remove_elements.induct) auto

lemma remove_elements_removes: "\<not> contains_element tag (remove_elements tag ns)"
  by (induction tag ns rule: remove_elements.induct) auto

lemma remove_elements_keeps_absent:
  "\<not> contains_element tag ns \<Longrightarrow> \<not> contains_element tag (remove_elements other ns)"
  by (induction other ns rule: remove_elements.induct) auto

lemma contains_element_merge_text:
  "contains_element tag (merge_text ns) = contains_element tag ns"
  by (induction ns rule: merge_text.induct) auto

lemma strip_clean:
  "\<not> contains_element ''script'' (remove_elements ''style'' (remove_elements ''script'' t))"
  "\<not> contains_element ''style'' (remove_elements ''style'' (remove_elements ''script'' t))"
  by (simp_all add: remove_elements_keeps_absent remove_elements_removes)

lemma strip_fixed:
  "\<not> contains_element ''script'' t \<Longrightarrow> \<not> contains_element ''style'' t \<Longrightarrow>
   remove_elements ''style'' (remove_elements ''script'' t) = t"
  by (simp add: remove_elements_absent)

text \<open>
  C7. On the tree the strip is idempotent: removing the script and style elements of a
  tree from which they were already removed changes nothing. On strings,
  \<open>parseContent (parseContent h) = parseContent h\<close> holds for every non-empty \<open>h\<close>
  for which \<open>parseContent h\<close> is not empty and whose stripped tree the browser reads
  back as it wrote it, up to the merging of text nodes (\<open>round_trip\<close>): the second run
  then finds nothing to remove. It does not hold when the strip leaves nothing: for
  \<open><script>x</script>\<close> the first run returns the empty string, and the second run
  returns the placeholder for it.
\<close>

theorem strip_idempotent:
  "remove_elements ''style'' (remove_elements ''script''
     (remove_elements ''style'' (remove_elements ''script'' ns)))
   = remove_elements ''style'' (remove_elements ''script'' ns)
   \<and> (h \<noteq> [] \<and> parseContent P (Some h) \<noteq> []
        \<and> round_trip P (remove_elements ''style'' (remove_elements ''script'' (set_innerHTML P h)))
      \<longrightarrow> parseContent P (Some (parseContent P (Some h))) = parseContent P (Some h))"
proof (intro conjI impI)
  show "remove_elements ''style'' (remove_elements ''script''
     (remove_elements ''style'' (remove_elements ''script'' ns)))
   = remove_elements ''style'' (remove_elements ''script'' ns)"
    by (intro strip_fixed strip_clean)
next
  let ?t = "remove_elements ''style'' (remove_elements ''script'' (set_innerHTML P h))"
  assume a: "h \<noteq> [] \<and> parseContent P (Some h) \<noteq> [] \<and> round_trip P ?t"
  have out: "parseContent P (Some h) = get_innerHTML P ?t"
    using a by (simp add: parseContent_def)
  with a have ne: "get_innerHTML P ?t \<noteq> []" by simp
  have reparse: "set_innerHTML P (get_innerHTML P ?t) = merge_text ?t"
    and same: "get_innerHTML P (merge_text ?t) = get_innerHTML P ?t"
    using a by (simp_all add: round_trip_def)
  have kept: "remove_elements ''style'' (remove_elements ''script'' (merge_text ?t)) = merge_text ?t"
    by (intro strip_fixed) (simp_all only: contains_element_merge_text strip_clean not_False_eq_True)
  have "parseContent P (Some (get_innerHTML P ?t))
          = get_innerHTML P (remove_elements ''style'' (remove_elements ''script''
              (set_innerHTML P (get_innerHTML P ?t))))"
    using ne by (simp add: parseContent_def)
  also have "\<dots> = get_innerHTML P (merge_text ?t)"
    by (simp only: reparse kept)
  also have "\<dots> = get_innerHTML P ?t" by (rule same)
  finally show "parseContent P (Some (parseContent P (Some h))) = parseContent P (Some h)"
    by (simp only: out)
qed

theorem strip_idempotent_witness:
  "parseContent (ref_platform (Rejected []))
     (Some ''<div><p>Hi</p>a<script>x</script>b</div><style>p {}</style>'')
     = ''<div><p>Hi</p>ab</div>''
   \<and> parseContent (ref_platform (Rejected []))
        (Some (parseContent (ref_platform (Rejected []))
           (Some ''<div><p>Hi</p>a<script>x</script>b</div><style>p {}</style>'')))
     = ''<div><p>Hi</p>ab</div>''"
proof -
  let ?P = "ref_platform (Rejected [])"
  let ?h = "''<div><p>Hi</p>a<script>x</script>b</div><style>p {}</style>''"
  have out: "parseContent ?P (Some ?h) = ''<div><p>Hi</p>ab</div>''" by code_simp
  have rt: "round_trip ?P
      (remove_elements ''style'' (remove_elements ''script'' (set_innerHTML ?P ?h)))"
    by code_simp
  show ?thesis
    using strip_idempotent [of "[]" ?h ?P] out rt by simp
qed

theorem strip_not_idempotent_when_emptied:
  "parseContent (ref_platform (Rejected []))
     (Some (parseContent (ref_platform (Rejected [])) (Some ''<script>x</script>'')))
   \<noteq> parseContent (ref_platform (Rejected [])) (Some ''<script>x</script>'')"
  by code_simp

section \<open>Markdown conversion\<close>





lemma no_prefix_inside:
  assumes "t2 \<noteq> []" and "hd t2 \<noteq> hd lit" and "lit \<noteq> []"
  shows "\<not> prefix lit (t2 @ v)"
  using assms by (cases lit; cases t2) auto









lemma link_match_inside:
  assumes "t2 \<noteq> []" and "hd t2 \<noteq> CHR ''[''"
  shows "link_match b (t2 @ v) = None"
proof -
  have "\<not> prefix ''['' (t2 @ v)"
    using assms by (intro no_prefix_inside) auto
  then show ?thesis by (simp add: link_match_def)
qed










































text \<open>
  C5. The link pattern is applied before the image pattern and also matches the
  bracket and parenthesis of an image token, so \<open>![alt](url)\<close> comes out as an
  exclamation mark followed by an anchor, and the output holds no \<open>img\<close> element.
\<close>

theorem image_token_becomes_link:
  \<open>markdownToHtml (Some ''![alt](url)'')
     = ''<p>!<a href="url" target="_blank" rel="noopener noreferrer">alt</a></p>''
   \<and> \<not> str_includes (markdownToHtml (Some ''![alt](url)'')) ''<img''\<close>
  by code_simp

section \<open>The reference platform at work\<close>

text \<open>
  The inputs that the theorems above hand to the parser of the reference platform are
  covered, and so is what \<open>parseContent\<close> returns for them.
\<close>

lemma reference_inputs_covered:
  "ref_covered '' ''"
  "ref_covered ''<script>x</script>''"
  "ref_covered ''<div><p>Hi</p>a<script>x</script>b</div><style>p {}</style>''"
  "ref_covered ''<div><p>Hi</p>ab</div>''"
  by code_simp+

text \<open>
  Outside the covered inputs: tags of \<open>html\<close> and \<open>body\<close> are dropped, a \<open>div\<close> ends
  the paragraph it starts in, attributes are read and written with double quotes, and
  a script in the contents of a template is not among the descendants that
  \<open>parseContent\<close> removes.
\<close>

lemma reference_parser_examples:
  \<open>ref_parse ''<html><body><p>a</p></body></html>'' = [Element ''p'' [] [Text ''a'']]\<close>
  \<open>ref_parse ''<p>a<div>b</div></p>''
     = [Element ''p'' [] [Text ''a''], Element ''div'' [] [Text ''b''], Element ''p'' [] []]\<close>
  \<open>ref_parse ''<A HREF=u class='k' id="n">x</A>''
     = [Element ''a'' [(''href'', ''u''), (''class'', ''k''), (''id'', ''n'')] [Text ''x'']]\<close>
  \<open>ref_serialize [Element ''a'' [(''href'', ''u'')] [Text ''x''], Element ''br'' [] []]
     = ''<a href="u">x</a><br>''\<close>
  \<open>parseContent (ref_platform (Rejected [])) (Some ''<template><script>x</script></template>a'')
     = ''<template><script>x</script></template>a''\<close>
  by code_simp+

end
